theory Spec2Isabelle
  imports Main "HOL-Library.AList"
begin

section \<open>Python values and exceptions\<close>

text \<open>
  Text is a list of characters (\<open>len\<close> is \<open>length\<close>); a character stands for a code
  point below 256.  A raw value of the wire format is text, a boolean, a list or a
  dictionary with text keys (an association list in insertion order); a
  \<open>DynamoType\<close> object has the two attributes \<open>type\<close> and \<open>value\<close>.
\<close>

datatype pyval =
    PStr string
  | PBool bool
  | PList "pyval list"
  | PDict "(string \<times> pyval) list"
  | PObj dynamo
and dynamo = DynamoType (dtype: string) (dvalue: pyval)

text \<open>
  The exceptions the modelled code raises.  \<open>Unmodelled\<close> is not a Python exception:
  it marks a value whose shape does not fit its tag in a way the class itself never
  produces, where the outcome depends on Python's dynamic protocols and no statement
  is made.
\<close>

datatype error =
    TypeError
  | AttributeError
  | IndexError
  | ValueError
  | OverflowError
  | NotImplementedError
  | IncorrectDataType
  | InvalidTokenException char string
  | InvalidExpressionAttributeNameKey string
  | Unmodelled

section \<open>Type tag registry (\<open>DDBType\<close>, \<open>DDBTypeConversion\<close>)\<close>

definition BINARY_SET :: string where "BINARY_SET = ''BS''"
definition NUMBER_SET :: string where "NUMBER_SET = ''NS''"
definition STRING_SET :: string where "STRING_SET = ''SS''"
definition STRING :: string where "STRING = ''S''"
definition NUMBER :: string where "NUMBER = ''N''"
definition MAP :: string where "MAP = ''M''"
definition LIST :: string where "LIST = ''L''"
definition BOOLEAN :: string where "BOOLEAN = ''BOOL''"
definition BINARY :: string where "BINARY = ''B''"
definition NULL :: string where "NULL = ''NULL''"

text \<open>
  \<open>DDBType.__dict__.items()\<close>: the class attributes in definition order, as
  (name, value) pairs.  Besides the ten constants the class dictionary holds the entries
  Python adds (\<open>__module__\<close>, \<open>__doc__\<close>, \<open>__dict__\<close>, \<open>__weakref__\<close>); the
  comprehension reads only their names, so their values are left empty here.
\<close>

definition DDBType_items :: "(string \<times> string) list" where
  "DDBType_items =
    [(''__module__'', []), (''__doc__'', []),
     (''BINARY_SET'', BINARY_SET), (''NUMBER_SET'', NUMBER_SET), (''STRING_SET'', STRING_SET),
     (''STRING'', STRING), (''NUMBER'', NUMBER), (''MAP'', MAP), (''LIST'', LIST),
     (''BOOLEAN'', BOOLEAN), (''BINARY'', BINARY), (''NULL'', NULL),
     (''__dict__'', []), (''__weakref__'', [])]"

text \<open>\<open>str.upper\<close> on ASCII text: a lower-case letter moves down by 32.\<close>

definition upper_char :: "char \<Rightarrow> char" where
  "upper_char c =
    (if 97 \<le> (of_char c :: nat) \<and> (of_char c :: nat) \<le> 122
     then char_of ((of_char c :: nat) - 32) else c)"

definition upper :: "string \<Rightarrow> string" where
  "upper s = map upper_char s"

text \<open>\<open>key.replace("_", " ")\<close>: every underscore becomes a space.\<close>

definition replace_underscore :: "string \<Rightarrow> string" where
  "replace_underscore s = map (\<lambda>c. if c = CHR ''_'' then CHR '' '' else c) s"

text \<open>
  The dictionary comprehension \<open>{val: key.replace("_", " ") for key, val in ... if
  key.upper() == key}\<close>: entries are stored in order, a later one replacing an earlier
  one with the same key.
\<close>

definition human_type_mapping :: "(string \<times> string) list" where
  "human_type_mapping =
    foldl (\<lambda>d (key, val). AList.update val (replace_underscore key) d) []
      (filter (\<lambda>(key, val). upper key = key) DDBType_items)"

text \<open>\<open>cls._human_type_mapping.get(abbreviated_type, abbreviated_type)\<close>\<close>

definition get_human_type :: "string \<Rightarrow> string" where
  "get_human_type abbreviated_type =
    (case map_of human_type_mapping abbreviated_type of
       Some h \<Rightarrow> h
     | None \<Rightarrow> abbreviated_type)"

text \<open>The ten tag codes of \<open>DDBType\<close>.\<close>

definition tag_codes :: "string list" where
  "tag_codes = [BINARY_SET, NUMBER_SET, STRING_SET, STRING, NUMBER, MAP, LIST, BOOLEAN, BINARY, NULL]"

section \<open>Typed values (\<open>DynamoType\<close>)\<close>

definition is_number :: "dynamo \<Rightarrow> bool" where
  "is_number self = (dtype self = NUMBER)"

definition is_set :: "dynamo \<Rightarrow> bool" where
  "is_set self = (dtype self \<in> set [STRING_SET, NUMBER_SET, BINARY_SET])"

definition is_list :: "dynamo \<Rightarrow> bool" where
  "is_list self = (dtype self = LIST)"

definition is_map :: "dynamo \<Rightarrow> bool" where
  "is_map self = (dtype self = MAP)"

subsection \<open>Construction and serialization\<close>

text \<open>
  \<open>__init__\<close>: a \<open>DynamoType\<close> argument is copied; otherwise the argument is read as
  a dictionary, the first key is the tag and the first value the raw value
  (\<open>list(d)[0]\<close> raises IndexError on an empty dictionary).  A List value is then
  rebuilt from the constructor applied to each element, a Map value from the
  constructor applied to each entry's value.  An argument that is neither an object nor
  a dictionary, and a List or Map tag whose value is not a list or a dictionary, are
  outside the wire format.
\<close>

fun init :: "pyval \<Rightarrow> error + dynamo"
  and init_list :: "pyval list \<Rightarrow> error + pyval list"
  and init_items :: "(string \<times> pyval) list \<Rightarrow> error + (string \<times> pyval) list"
  and init_wrap :: "string \<Rightarrow> pyval \<Rightarrow> error + dynamo"
where
  "init (PObj (DynamoType t v)) = init_wrap t v"
| "init (PDict []) = Inl IndexError"
| "init (PDict ((t, v) # rest)) = init_wrap t v"
| "init (PStr s) = Inl Unmodelled"
| "init (PBool b) = Inl Unmodelled"
| "init (PList xs) = Inl Unmodelled"
| "init_wrap t v =
    (if is_list (DynamoType t v) then
       (case v of
          PList xs \<Rightarrow>
            (case init_list xs of Inl e \<Rightarrow> Inl e | Inr ys \<Rightarrow> Inr (DynamoType t (PList ys)))
        | _ \<Rightarrow> Inl Unmodelled)
     else if is_map (DynamoType t v) then
       (case v of
          PDict kvs \<Rightarrow>
            (case init_items kvs of Inl e \<Rightarrow> Inl e | Inr kws \<Rightarrow> Inr (DynamoType t (PDict kws)))
        | _ \<Rightarrow> Inl AttributeError)
     else Inr (DynamoType t v))"
| "init_list [] = Inr []"
| "init_list (x # xs) =
    (case init x of
       Inl e \<Rightarrow> Inl e
     | Inr d \<Rightarrow> (case init_list xs of Inl e \<Rightarrow> Inl e | Inr ys \<Rightarrow> Inr (PObj d # ys)))"
| "init_items [] = Inr []"
| "init_items ((k, v) # kvs) =
    (case init v of
       Inl e \<Rightarrow> Inl e
     | Inr d \<Rightarrow> (case init_items kvs of Inl e \<Rightarrow> Inl e | Inr kws \<Rightarrow> Inr ((k, PObj d) # kws)))"

text \<open>\<open>to_json\<close>: the single-key dictionary \<open>{self.type: self.value}\<close>.\<close>

definition to_json :: "dynamo \<Rightarrow> pyval" where
  "to_json self = PDict [(dtype self, dvalue self)]"

subsection \<open>Size accounting\<close>

text \<open>
  A termination measure: the number of containers and objects of a value.  The
  constructor returns an object no larger than its argument, so \<open>size\<close> may call
  it on a child before recursing.
\<close>

fun weight :: "pyval \<Rightarrow> nat"
  and weight_obj :: "dynamo \<Rightarrow> nat"
where
  "weight (PStr s) = 0"
| "weight (PBool b) = 0"
| "weight (PList xs) = Suc (sum_list (map (\<lambda>x. Suc (weight x)) xs))"
| "weight (PDict kvs) = Suc (sum_list (map (\<lambda>kv. Suc (weight (snd kv))) kvs))"
| "weight (PObj d) = Suc (weight_obj d)"
| "weight_obj (DynamoType t v) = Suc (weight v)"

lemma init_weight:
  "(\<forall>d. init x = Inr d \<longrightarrow> weight_obj d < weight x)"
  "(\<forall>ys. init_list xs = Inr ys \<longrightarrow>
      sum_list (map (\<lambda>x. Suc (weight x)) ys) \<le> sum_list (map (\<lambda>x. Suc (weight x)) xs))"
  "(\<forall>kws. init_items kvs = Inr kws \<longrightarrow>
      sum_list (map (\<lambda>kv. Suc (weight (snd kv))) kws) \<le> sum_list (map (\<lambda>kv. Suc (weight (snd kv))) kvs))"
  "(\<forall>d. init_wrap t v = Inr d \<longrightarrow> weight_obj d \<le> Suc (weight v))"
proof (induction x and xs and kvs and t v rule: init_init_list_init_items_init_wrap.induct)
  case (7 t v)
  then show ?case
    by (cases v) (auto split: sum.splits)
qed (auto split: sum.splits simp: less_Suc_eq_le)

lemma init_weight_lt: "init x = Inr d \<Longrightarrow> weight_obj d < weight x"
  using init_weight(1) by blast

text \<open>
  \<open>size\<close>, with the byte-size estimator \<open>bytesize\<close> of
  \<open>moto.dynamodb2.models.utilities\<close> as a parameter.  The generator expressions
  summed by \<open>sum\<close> are the three list recursions: the members of a set, each wrapped
  as \<open>DynamoType({sub_type: v})\<close>; the children of a list, each asked for its
  \<open>size()\<close> (an element that is not an object has no such attribute); the entries
  of a map, each value passed through the constructor.
\<close>

function size_dt :: "(string \<Rightarrow> nat) \<Rightarrow> dynamo \<Rightarrow> error + nat"
  and size_members :: "(string \<Rightarrow> nat) \<Rightarrow> string \<Rightarrow> pyval list \<Rightarrow> error + nat"
  and size_children :: "(string \<Rightarrow> nat) \<Rightarrow> pyval list \<Rightarrow> error + nat"
  and size_entries :: "(string \<Rightarrow> nat) \<Rightarrow> (string \<times> pyval) list \<Rightarrow> error + nat"
where
  "size_dt bytesize (DynamoType t v) =
    (if is_number (DynamoType t v) then
       (case v of PStr s \<Rightarrow> Inr (length s) | _ \<Rightarrow> Inl Unmodelled)
     else if is_set (DynamoType t v) then
       (case v of PList xs \<Rightarrow> size_members bytesize (take 1 t) xs | _ \<Rightarrow> Inl Unmodelled)
     else if is_list (DynamoType t v) then
       (case v of PList xs \<Rightarrow> size_children bytesize xs | _ \<Rightarrow> Inl Unmodelled)
     else if is_map (DynamoType t v) then
       (case v of PDict kvs \<Rightarrow> size_entries bytesize kvs | _ \<Rightarrow> Inl Unmodelled)
     else
       (case v of
          PBool b \<Rightarrow> Inr 1
        | PStr s \<Rightarrow> Inr (bytesize s)
        | _ \<Rightarrow> Inl Unmodelled))"
| "size_members bytesize sub_type [] = Inr 0"
| "size_members bytesize sub_type (x # xs) =
    (case init (PDict [(sub_type, x)]) of
       Inl e \<Rightarrow> Inl e
     | Inr d \<Rightarrow>
        (case size_dt bytesize d of
           Inl e \<Rightarrow> Inl e
         | Inr a \<Rightarrow>
            (case size_members bytesize sub_type xs of
               Inl e \<Rightarrow> Inl e
             | Inr b \<Rightarrow> Inr (a + b))))"
| "size_children bytesize [] = Inr 0"
| "size_children bytesize (x # xs) =
    (case x of
       PObj d \<Rightarrow>
        (case size_dt bytesize d of
           Inl e \<Rightarrow> Inl e
         | Inr a \<Rightarrow>
            (case size_children bytesize xs of
               Inl e \<Rightarrow> Inl e
             | Inr b \<Rightarrow> Inr (a + b)))
     | _ \<Rightarrow> Inl AttributeError)"
| "size_entries bytesize [] = Inr 0"
| "size_entries bytesize ((k, v) # kvs) =
    (case init v of
       Inl e \<Rightarrow> Inl e
     | Inr d \<Rightarrow>
        (case size_dt bytesize d of
           Inl e \<Rightarrow> Inl e
         | Inr a \<Rightarrow>
            (case size_entries bytesize kvs of
               Inl e \<Rightarrow> Inl e
             | Inr b \<Rightarrow> Inr (bytesize k + a + b))))"
  by pat_completeness auto
termination
  by (relation "measure (\<lambda>a. case a of
      Inl (Inl (bs, d)) \<Rightarrow> weight_obj d
    | Inl (Inr (bs, sub, xs)) \<Rightarrow> weight (PList xs)
    | Inr (Inl (bs, xs)) \<Rightarrow> weight (PList xs)
    | Inr (Inr (bs, kvs)) \<Rightarrow> weight (PDict kvs))")
     (auto simp del: init.simps init_wrap.simps dest!: init_weight_lt)

subsection \<open>Equality\<close>

text \<open>
  \<open>__eq__\<close>: \<open>self.type == other.type and self.value == other.value\<close>.  The
  comparison of the values is Python's \<open>==\<close>: text with text and booleans with
  booleans by value; lists when they have the same length and equal elements, compared in
  order up to the first difference; dictionaries when they have the same number of
  entries and every key of the left one is in the right one with an equal value;
  objects by \<open>__eq__\<close>, which reads \<open>other.type\<close> and so raises AttributeError on
  anything that is not an object; values of different built-in types are unequal.
  (Python skips the comparison of an element with itself; on these values the result is
  the same.)
\<close>

fun eq_dt :: "dynamo \<Rightarrow> dynamo \<Rightarrow> error + bool"
  and py_eq :: "pyval \<Rightarrow> pyval \<Rightarrow> error + bool"
  and py_eq_list :: "pyval list \<Rightarrow> pyval list \<Rightarrow> error + bool"
  and py_eq_items :: "(string \<times> pyval) list \<Rightarrow> (string \<times> pyval) list \<Rightarrow> error + bool"
where
  "eq_dt (DynamoType t v) (DynamoType t' v') = (if t = t' then py_eq v v' else Inr False)"
| "py_eq (PObj d) (PObj e) = eq_dt d e"
| "py_eq (PObj d) y = Inl AttributeError"
| "py_eq x (PObj e) = Inl AttributeError"
| "py_eq (PStr a) (PStr b) = Inr (a = b)"
| "py_eq (PBool a) (PBool b) = Inr (a = b)"
| "py_eq (PList xs) (PList ys) = (if length xs = length ys then py_eq_list xs ys else Inr False)"
| "py_eq (PDict a) (PDict b) = (if length a = length b then py_eq_items a b else Inr False)"
| "py_eq x y = Inr False"
| "py_eq_list (x # xs) (y # ys) =
    (case py_eq x y of
       Inl e \<Rightarrow> Inl e
     | Inr c \<Rightarrow> if c then py_eq_list xs ys else Inr False)"
| "py_eq_list xs ys = Inr (xs = [] \<and> ys = [])"
| "py_eq_items [] b = Inr True"
| "py_eq_items ((k, aval) # a) b =
    (case map_of b k of
       None \<Rightarrow> Inr False
     | Some bval \<Rightarrow>
        (case py_eq aval bval of
           Inl e \<Rightarrow> Inl e
         | Inr c \<Rightarrow> if c then py_eq_items a b else Inr False))"

subsection \<open>The shape invariant of the data model\<close>

text \<open>
  A Typed Value: the tag is one of the ten codes and determines the shape of the value.
  The scalar tags hold text (String, Number, Binary) or a boolean (Boolean, Null); a set
  tag holds a list of text members; List holds a list of Typed Values; Map holds a
  dictionary (unique keys) of Typed Values.  The constructor establishes the List and Map
  part by wrapping every child.
\<close>

fun typed_value :: "dynamo \<Rightarrow> bool"
  and typed_children :: "pyval list \<Rightarrow> bool"
  and typed_entries :: "(string \<times> pyval) list \<Rightarrow> bool"
where
  "typed_value (DynamoType t v) =
    (if t = LIST then (case v of PList xs \<Rightarrow> typed_children xs | _ \<Rightarrow> False)
     else if t = MAP then
       (case v of PDict kvs \<Rightarrow> distinct (map fst kvs) \<and> typed_entries kvs | _ \<Rightarrow> False)
     else if t \<in> set [STRING_SET, NUMBER_SET, BINARY_SET] then
       (case v of PList xs \<Rightarrow> list_all (\<lambda>x. case x of PStr s \<Rightarrow> True | _ \<Rightarrow> False) xs | _ \<Rightarrow> False)
     else if t \<in> set [BOOLEAN, NULL] then (case v of PBool b \<Rightarrow> True | _ \<Rightarrow> False)
     else if t \<in> set [STRING, NUMBER, BINARY] then (case v of PStr s \<Rightarrow> True | _ \<Rightarrow> False)
     else False)"
| "typed_children [] = True"
| "typed_children (x # xs) =
    (case x of PObj d \<Rightarrow> typed_value d \<and> typed_children xs | _ \<Rightarrow> False)"
| "typed_entries [] = True"
| "typed_entries ((k, x) # kvs) =
    (case x of PObj d \<Rightarrow> typed_value d \<and> typed_entries kvs | _ \<Rightarrow> False)"

subsection \<open>Arithmetic\<close>

text \<open>
  \<open>int(s)\<close> on text: white space around the literal is skipped (for \<open>int\<close> these
  are the characters 9 to 13, 32, 133 and 160), one sign may come first, and the digits
  may be grouped by single underscores between digits.  Anything else raises ValueError
  (\<open>None\<close>).  Integers are unbounded; the interpreter's optional cap on the length of
  converted literals (\<open>sys.int_max_str_digits\<close>, added to Python after this code was
  written) is taken as switched off.
\<close>

definition is_digit :: "char \<Rightarrow> bool" where
  "is_digit c = (48 \<le> (of_char c :: nat) \<and> (of_char c :: nat) \<le> 57)"

definition digit_value :: "char \<Rightarrow> nat" where
  "digit_value c = (of_char c :: nat) - 48"

definition digit_char :: "nat \<Rightarrow> char" where
  "digit_char d = char_of (48 + d)"

definition int_space :: "char \<Rightarrow> bool" where
  "int_space c = ((of_char c :: nat) \<in> set [9, 10, 11, 12, 13, 32, 133, 160])"

definition decimal_value :: "string \<Rightarrow> nat" where
  "decimal_value ds = foldl (\<lambda>a c. 10 * a + digit_value c) 0 ds"

fun doubled_underscore :: "string \<Rightarrow> bool" where
  "doubled_underscore (a # b # cs) =
    (if a = CHR ''_'' \<and> b = CHR ''_'' then True else doubled_underscore (b # cs))"
| "doubled_underscore cs = False"

definition digits_ok :: "string \<Rightarrow> bool" where
  "digits_ok body =
    (if body = [] then False
     else if hd body = CHR ''_'' then False
     else if last body = CHR ''_'' then False
     else if doubled_underscore body then False
     else True)"

definition py_int :: "string \<Rightarrow> int option" where
  "py_int s =
    (let t = dropWhile int_space s;
         negative = (case t of [] \<Rightarrow> False | c # r \<Rightarrow> c = CHR ''-'');
         r = (case t of [] \<Rightarrow> [] | c # r \<Rightarrow> if c = CHR ''+'' \<or> c = CHR ''-'' then r else t);
         body = takeWhile (\<lambda>c. is_digit c \<or> c = CHR ''_'') r;
         rest = dropWhile (\<lambda>c. is_digit c \<or> c = CHR ''_'') r
     in if digits_ok body \<and> list_all int_space rest
        then Some (if negative then - int (decimal_value (filter is_digit body))
                   else int (decimal_value (filter is_digit body)))
        else None)"

text \<open>\<open>"{v}".format(v=i)\<close> for an integer: its decimal digits, after a minus sign when negative.\<close>

fun str_nat :: "nat \<Rightarrow> string" where
  "str_nat n = (if n < 10 then [digit_char n] else str_nat (n div 10) @ [digit_char (n mod 10)])"

declare str_nat.simps [simp del]

definition py_str_int :: "int \<Rightarrow> string" where
  "py_str_int i = (if i < 0 then CHR ''-'' # str_nat (nat (- i)) else str_nat (nat i))"

text \<open>
  Floating point is not interpreted: the type \<open>'f\<close> of floats and Python's operations
  on it are parameters.  \<open>float_of_str\<close> is \<open>float(s)\<close> (\<open>None\<close>: ValueError),
  \<open>float_of_int\<close> the conversion of the integer operand of a mixed operation
  (\<open>None\<close>: OverflowError), \<open>float_str\<close> the formatting of a float.
\<close>

datatype 'f pynum = PyInt int | PyFloat 'f

record 'f float_ops =
  float_of_str :: "string \<Rightarrow> 'f option"
  float_of_int :: "int \<Rightarrow> 'f option"
  float_add :: "'f \<Rightarrow> 'f \<Rightarrow> 'f"
  float_sub :: "'f \<Rightarrow> 'f \<Rightarrow> 'f"
  float_str :: "'f \<Rightarrow> string"

text \<open>\<open>float(value) if "." in value else int(value)\<close>\<close>

definition parse_operand :: "'f float_ops \<Rightarrow> string \<Rightarrow> error + 'f pynum" where
  "parse_operand fl s =
    (if CHR ''.'' \<in> set s then
       (case float_of_str fl s of None \<Rightarrow> Inl ValueError | Some f \<Rightarrow> Inr (PyFloat f))
     else
       (case py_int s of None \<Rightarrow> Inl ValueError | Some i \<Rightarrow> Inr (PyInt i)))"

text \<open>Python's \<open>+\<close> and \<open>-\<close> on numbers: an integer meeting a float is converted first.\<close>

fun py_add :: "'f float_ops \<Rightarrow> 'f pynum \<Rightarrow> 'f pynum \<Rightarrow> error + 'f pynum" where
  "py_add fl (PyInt a) (PyInt b) = Inr (PyInt (a + b))"
| "py_add fl (PyInt a) (PyFloat g) =
    (case float_of_int fl a of
       None \<Rightarrow> Inl OverflowError
     | Some f \<Rightarrow> Inr (PyFloat (float_add fl f g)))"
| "py_add fl (PyFloat f) (PyInt b) =
    (case float_of_int fl b of
       None \<Rightarrow> Inl OverflowError
     | Some g \<Rightarrow> Inr (PyFloat (float_add fl f g)))"
| "py_add fl (PyFloat f) (PyFloat g) = Inr (PyFloat (float_add fl f g))"

fun py_sub :: "'f float_ops \<Rightarrow> 'f pynum \<Rightarrow> 'f pynum \<Rightarrow> error + 'f pynum" where
  "py_sub fl (PyInt a) (PyInt b) = Inr (PyInt (a - b))"
| "py_sub fl (PyInt a) (PyFloat g) =
    (case float_of_int fl a of
       None \<Rightarrow> Inl OverflowError
     | Some f \<Rightarrow> Inr (PyFloat (float_sub fl f g)))"
| "py_sub fl (PyFloat f) (PyInt b) =
    (case float_of_int fl b of
       None \<Rightarrow> Inl OverflowError
     | Some g \<Rightarrow> Inr (PyFloat (float_sub fl f g)))"
| "py_sub fl (PyFloat f) (PyFloat g) = Inr (PyFloat (float_sub fl f g))"

fun format_number :: "'f float_ops \<Rightarrow> 'f pynum \<Rightarrow> string" where
  "format_number fl (PyInt i) = py_str_int i"
| "format_number fl (PyFloat f) = float_str fl f"

text \<open>
  One instance of the float parameters, for evaluating examples: numbers with one decimal
  digit, held as their count of tenths (\<open>1.5\<close> is 15).
\<close>

definition tenths :: "int float_ops" where
  "tenths =
    \<lparr>float_of_str = (\<lambda>s.
        let a = takeWhile (\<lambda>c. c \<noteq> CHR ''.'') s;
            b = drop 1 (dropWhile (\<lambda>c. c \<noteq> CHR ''.'') s)
        in if a \<noteq> [] \<and> list_all is_digit a \<and> length b = 1 \<and> list_all is_digit b
           then Some (int (10 * decimal_value a + decimal_value b)) else None),
     float_of_int = (\<lambda>i. Some (10 * i)),
     float_add = (\<lambda>f g. f + g),
     float_sub = (\<lambda>f g. f - g),
     float_str = (\<lambda>f. py_str_int (f div 10) @ ''.'' @ py_str_int (f mod 10))\<rparr>"

text \<open>
  \<open>__add__\<close>: TypeError when the tags differ, IncorrectDataType when the tag is not
  Number; then each operand's text is parsed (the receiver's first) and the formatted
  sum is wrapped as a Number.
\<close>

definition add_dt :: "'f float_ops \<Rightarrow> dynamo \<Rightarrow> dynamo \<Rightarrow> error + dynamo" where
  "add_dt fl self other =
    (if dtype self \<noteq> dtype other then Inl TypeError
     else if \<not> is_number self then Inl IncorrectDataType
     else
       (case dvalue self of
          PStr a \<Rightarrow>
           (case parse_operand fl a of
              Inl e \<Rightarrow> Inl e
            | Inr self_value \<Rightarrow>
               (case dvalue other of
                  PStr b \<Rightarrow>
                   (case parse_operand fl b of
                      Inl e \<Rightarrow> Inl e
                    | Inr other_value \<Rightarrow>
                       (case py_add fl self_value other_value of
                          Inl e \<Rightarrow> Inl e
                        | Inr v \<Rightarrow> init (PDict [(NUMBER, PStr (format_number fl v))])))
                | _ \<Rightarrow> Inl Unmodelled))
        | _ \<Rightarrow> Inl Unmodelled))"

text \<open>
  \<open>__sub__\<close>: TypeError when the tags differ, and TypeError again when the tag is not
  Number; then as \<open>__add__\<close>, with the difference.
\<close>

definition sub_dt :: "'f float_ops \<Rightarrow> dynamo \<Rightarrow> dynamo \<Rightarrow> error + dynamo" where
  "sub_dt fl self other =
    (if dtype self \<noteq> dtype other then Inl TypeError
     else if dtype self \<noteq> NUMBER then Inl TypeError
     else
       (case dvalue self of
          PStr a \<Rightarrow>
           (case parse_operand fl a of
              Inl e \<Rightarrow> Inl e
            | Inr self_value \<Rightarrow>
               (case dvalue other of
                  PStr b \<Rightarrow>
                   (case parse_operand fl b of
                      Inl e \<Rightarrow> Inl e
                    | Inr other_value \<Rightarrow>
                       (case py_sub fl self_value other_value of
                          Inl e \<Rightarrow> Inl e
                        | Inr v \<Rightarrow> init (PDict [(NUMBER, PStr (format_number fl v))])))
                | _ \<Rightarrow> Inl Unmodelled))
        | _ \<Rightarrow> Inl Unmodelled))"

subsection \<open>Indexed mutation\<close>

text \<open>
  A key is an integer, a boolean (\<open>isinstance(True, int)\<close> holds, and \<open>True\<close> indexes
  as 1), text, or any other object.
\<close>

datatype key = KInt int | KBool bool | KStr string | KOther

fun isinstance_int :: "key \<Rightarrow> bool" where
  "isinstance_int (KInt i) = True"
| "isinstance_int (KBool b) = True"
| "isinstance_int k = False"

fun isinstance_str :: "key \<Rightarrow> bool" where
  "isinstance_str (KStr s) = True"
| "isinstance_str k = False"

fun index_of :: "key \<Rightarrow> int" where
  "index_of (KInt i) = i"
| "index_of (KBool b) = (if b then 1 else 0)"
| "index_of k = 0"

fun text_of :: "key \<Rightarrow> string" where
  "text_of (KStr s) = s"
| "text_of k = []"

text \<open>
  Python's \<open>xs[i] = v\<close>: a negative index counts from the end, an index outside
  the list raises IndexError.
\<close>

definition list_assign :: "pyval list \<Rightarrow> int \<Rightarrow> pyval \<Rightarrow> error + pyval list" where
  "list_assign xs i v =
    (if 0 \<le> i \<and> i < int (length xs) then Inr (xs[nat i := v])
     else if - int (length xs) \<le> i \<and> i < 0 then Inr (xs[nat (int (length xs) + i) := v])
     else Inl IndexError)"

text \<open>
  \<open>__setitem__\<close>; the object is updated in place, the model returns it.  Assignment to
  a dictionary key replaces the value of a present key and adds an absent one at the end.
\<close>

definition setitem :: "dynamo \<Rightarrow> key \<Rightarrow> pyval \<Rightarrow> error + dynamo" where
  "setitem self key val =
    (if isinstance_int key then
       (if is_list self then
          (case dvalue self of
             PList xs \<Rightarrow>
               (if index_of key \<ge> int (length xs)
                then Inr (DynamoType (dtype self) (PList (xs @ [val])))
                else (case list_assign xs (index_of key) val of
                        Inl e \<Rightarrow> Inl e
                      | Inr ys \<Rightarrow> Inr (DynamoType (dtype self) (PList ys))))
           | _ \<Rightarrow> Inl Unmodelled)
        else Inr self)
     else if isinstance_str key then
       (if is_map self then
          (case dvalue self of
             PDict kvs \<Rightarrow>
               Inr (DynamoType (dtype self) (PDict (AList.update (text_of key) val kvs)))
           | _ \<Rightarrow> Inl Unmodelled)
        else Inr self)
     else Inl NotImplementedError)"

subsection \<open>Projection filtering\<close>

text \<open>\<open>[expr[: expr.index(".")] for expr in projection_expressions if "." in expr]\<close>\<close>

definition nested_projections :: "string list \<Rightarrow> string list" where
  "nested_projections projection_expressions =
    map (takeWhile (\<lambda>c. c \<noteq> CHR ''.''))
      (filter (\<lambda>expr. CHR ''.'' \<in> set expr) projection_expressions)"

definition startswith :: "string \<Rightarrow> string \<Rightarrow> bool" where
  "startswith s p = (take (length p) s = p)"

text \<open>\<open>[expr[len(f"{attr}."):] for expr in projection_expressions if expr.startswith(f"{attr}.")]\<close>\<close>

definition relevant_expressions :: "string \<Rightarrow> string list \<Rightarrow> string list" where
  "relevant_expressions attr projection_expressions =
    map (drop (length (attr @ ''.'')))
      (filter (\<lambda>expr. startswith expr (attr @ ''.'')) projection_expressions)"

text \<open>
  \<open>filter\<close>; the object is updated in place, the model returns it.  The first loop
  (\<open>filter_attrs\<close>) visits the entries in order: it collects the keys to delete and
  filters the child of every nested root in place (a child that is not an object has no
  \<open>filter\<close> attribute).  The second loop pops the collected keys.
\<close>

fun filter_dt :: "string list \<Rightarrow> dynamo \<Rightarrow> error + dynamo"
  and filter_attrs :: "string list \<Rightarrow> (string \<times> pyval) list \<Rightarrow>
        error + ((string \<times> pyval) list \<times> string list)"
where
  "filter_dt projection_expressions (DynamoType t v) =
    (if is_map (DynamoType t v) then
       (case v of
          PDict kvs \<Rightarrow>
            (case filter_attrs projection_expressions kvs of
               Inl e \<Rightarrow> Inl e
             | Inr (kvs', expressions_to_delete) \<Rightarrow>
                 Inr (DynamoType t (PDict (foldl (\<lambda>d expr. AList.delete expr d) kvs'
                                            expressions_to_delete))))
        | _ \<Rightarrow> Inl Unmodelled)
     else Inr (DynamoType t v))"
| "filter_attrs projection_expressions [] = Inr ([], [])"
| "filter_attrs projection_expressions ((attr, x) # kvs) =
    (if attr \<notin> set projection_expressions
        \<and> attr \<notin> set (nested_projections projection_expressions) then
       (case filter_attrs projection_expressions kvs of
          Inl e \<Rightarrow> Inl e
        | Inr (kvs', dels) \<Rightarrow> Inr ((attr, x) # kvs', attr # dels))
     else if attr \<in> set (nested_projections projection_expressions) then
       (case x of
          PObj d \<Rightarrow>
            (case filter_dt (relevant_expressions attr projection_expressions) d of
               Inl e \<Rightarrow> Inl e
             | Inr d' \<Rightarrow>
                (case filter_attrs projection_expressions kvs of
                   Inl e \<Rightarrow> Inl e
                 | Inr (kvs', dels) \<Rightarrow> Inr ((attr, PObj d') # kvs', dels)))
        | _ \<Rightarrow> Inl AttributeError)
     else
       (case filter_attrs projection_expressions kvs of
          Inl e \<Rightarrow> Inl e
        | Inr (kvs', dels) \<Rightarrow> Inr ((attr, x) # kvs', dels)))"

section \<open>Expression tokenizer\<close>

text \<open>
  A token's type is one of the five placeholder kinds (\<open>Token.NUMBER\<close> is
  \<open>NUMBER_TOKEN\<close> here) or a special character standing for itself.
\<close>

datatype token_type =
    ATTRIBUTE
  | ATTRIBUTE_NAME
  | ATTRIBUTE_VALUE
  | WHITESPACE
  | NUMBER_TOKEN
  | SPECIAL char

datatype token = Token (ttype: token_type) (tvalue: string)

definition SPACE :: char where "SPACE = CHR '' ''"

definition SPECIAL_CHARACTERS :: "char list" where
  "SPECIAL_CHARACTERS =
    [CHR ''-'', CHR ''+'', CHR '' '', CHR ''='', CHR ''('', CHR '')'', CHR '','', SPACE,
     CHR ''.'', CHR ''['', CHR '']'']"

text \<open>The tokenizer object: the input, the tokens emitted so far and the staging buffer.\<close>

record tokenizer =
  input_expression_str :: string
  token_list :: "token list"
  staged_characters :: string

text \<open>
  \<open>[a-zA-Z0-9]\<close> of the regular expressions, and \<open>str.isalnum\<close> on a character
  below 256: the ASCII letters and digits, the Latin-1 letters, and the superscript
  digits and fractions.
\<close>

definition ascii_alnum :: "char \<Rightarrow> bool" where
  "ascii_alnum c =
    (let n = (of_char c :: nat)
     in (48 \<le> n \<and> n \<le> 57) \<or> (65 \<le> n \<and> n \<le> 90) \<or> (97 \<le> n \<and> n \<le> 122))"

definition isalnum :: "char \<Rightarrow> bool" where
  "isalnum c =
    (let n = (of_char c :: nat)
     in ascii_alnum c \<or> n \<in> set [170, 178, 179, 181, 185, 186, 188, 189, 190]
        \<or> (192 \<le> n \<and> n \<le> 214) \<or> (216 \<le> n \<and> n \<le> 246) \<or> 248 \<le> n)"

definition is_simple_token_character :: "char \<Rightarrow> bool" where
  "is_simple_token_character character =
    (isalnum character \<or> character \<in> set [CHR ''_'', CHR '':'', CHR ''#''])"

definition is_possible_token_boundary :: "char \<Rightarrow> bool" where
  "is_possible_token_boundary character =
    (if character \<in> set SPECIAL_CHARACTERS then True
     else \<not> is_simple_token_character character)"

text \<open>
  The regular expressions, each used with \<open>match\<close>, which anchors at the start only.
  \<open>$\<close> matches at the end of the text and before a final newline.
  \<open>is_expression_attribute\<close> is \<open>^[a-zA-Z0-9][a-zA-Z0-9_]*$\<close>,
  \<open>is_expression_attribute_value\<close> is \<open>^:[a-zA-Z0-9_]*$\<close>, and \<open>is_numeric\<close>
  is \<open>[0-9]+\<close>, with no anchor at the end.
\<close>

definition word_char :: "char \<Rightarrow> bool" where
  "word_char c = (ascii_alnum c \<or> c = CHR ''_'')"

definition at_end :: "string \<Rightarrow> bool" where
  "at_end rest = (rest = [] \<or> rest = [CHR 0x0A])"

definition is_expression_attribute :: "string \<Rightarrow> bool" where
  "is_expression_attribute input_string =
    (case input_string of
       [] \<Rightarrow> False
     | c # r \<Rightarrow> ascii_alnum c \<and> at_end (dropWhile word_char r))"

definition is_expression_attribute_name :: "string \<Rightarrow> bool" where
  "is_expression_attribute_name input_string =
    (startswith input_string ''#'' \<and> is_expression_attribute (drop 1 input_string))"

definition is_expression_attribute_value :: "string \<Rightarrow> bool" where
  "is_expression_attribute_value input_string =
    (case input_string of
       [] \<Rightarrow> False
     | c # r \<Rightarrow> c = CHR '':'' \<and> at_end (dropWhile word_char r))"

definition is_numeric :: "string \<Rightarrow> bool" where
  "is_numeric input_str =
    (case input_str of [] \<Rightarrow> False | c # r \<Rightarrow> is_digit c)"

text \<open>
  \<open>raise_unexpected_token\<close> always raises; the model returns the exception.
  \<open>self.staged_characters[0]\<close> raises IndexError on an empty buffer.
\<close>

definition raise_unexpected_token :: "tokenizer \<Rightarrow> error" where
  "raise_unexpected_token self =
    (let near =
       (if length (token_list self) = 0 then []
        else if length (token_list self) = 1 then tvalue (last (token_list self))
        else if ttype (last (token_list self)) = WHITESPACE
             then tvalue (last (butlast (token_list self))) @ tvalue (last (token_list self))
             else tvalue (last (token_list self)))
     in case staged_characters self of
          [] \<Rightarrow> IndexError
        | problematic_token # rest \<Rightarrow>
            InvalidTokenException problematic_token (near @ staged_characters self))"

definition tokenizer_init :: "string \<Rightarrow> tokenizer" where
  "tokenizer_init input_str =
    \<lparr>input_expression_str = input_str, token_list = [], staged_characters = []\<rparr>"

definition add_token :: "tokenizer \<Rightarrow> token_type \<Rightarrow> string \<Rightarrow> tokenizer" where
  "add_token self token_type token_value =
    self\<lparr>token_list := token_list self @ [Token token_type token_value]\<rparr>"

definition add_token_from_stage :: "tokenizer \<Rightarrow> token_type \<Rightarrow> tokenizer" where
  "add_token_from_stage self token_type =
    (add_token self token_type (staged_characters self))\<lparr>staged_characters := []\<rparr>"

definition process_staged_characters :: "tokenizer \<Rightarrow> error + tokenizer" where
  "process_staged_characters self =
    (if length (staged_characters self) = 0 then Inr self
     else if startswith (staged_characters self) ''#'' then
       (if is_expression_attribute_name (staged_characters self)
        then Inr (add_token_from_stage self ATTRIBUTE_NAME)
        else Inl (InvalidExpressionAttributeNameKey (staged_characters self)))
     else if is_numeric (staged_characters self) then
       Inr (add_token_from_stage self NUMBER_TOKEN)
     else if is_expression_attribute (staged_characters self) then
       Inr (add_token_from_stage self ATTRIBUTE)
     else if is_expression_attribute_value (staged_characters self) then
       Inr (add_token_from_stage self ATTRIBUTE_VALUE)
     else Inl (raise_unexpected_token self))"

text \<open>
  The body of the loop of \<open>_make_list\<close> for one character, the loop itself, and
  \<open>_make_list\<close> (\<open>make_list_inner\<close>) with its final flush of the staging buffer.
\<close>

definition process_character :: "tokenizer \<Rightarrow> char \<Rightarrow> error + tokenizer" where
  "process_character self character =
    (if \<not> is_possible_token_boundary character then
       Inr (self\<lparr>staged_characters := staged_characters self @ [character]\<rparr>)
     else
       (case process_staged_characters self of
          Inl e \<Rightarrow> Inl e
        | Inr self \<Rightarrow>
           (if character = SPACE then
              (if length (token_list self) > 0 \<and> ttype (last (token_list self)) = WHITESPACE
               then Inr (self\<lparr>token_list := butlast (token_list self) @
                          [Token (ttype (last (token_list self)))
                                 (tvalue (last (token_list self)) @ [character])]\<rparr>)
               else Inr (add_token self WHITESPACE [character]))
            else if character \<in> set SPECIAL_CHARACTERS then
              Inr (add_token self (SPECIAL character) [character])
            else if \<not> is_simple_token_character character then
              Inl (raise_unexpected_token
                     (self\<lparr>staged_characters := staged_characters self @ [character]\<rparr>))
            else Inl NotImplementedError)))"

fun process_characters :: "tokenizer \<Rightarrow> string \<Rightarrow> error + tokenizer" where
  "process_characters self [] = Inr self"
| "process_characters self (character # rest) =
    (case process_character self character of
       Inl e \<Rightarrow> Inl e
     | Inr self' \<Rightarrow> process_characters self' rest)"

definition make_list_inner :: "tokenizer \<Rightarrow> error + token list" where
  "make_list_inner self =
    (case process_characters self (input_expression_str self) of
       Inl e \<Rightarrow> Inl e
     | Inr self' \<Rightarrow>
        (case process_staged_characters self' of
           Inl e \<Rightarrow> Inl e
         | Inr self'' \<Rightarrow> Inr (token_list self'')))"

definition make_list :: "string \<Rightarrow> error + token list" where
  "make_list input_str = make_list_inner (tokenizer_init input_str)"

section \<open>The size equations of the specification\<close>

text \<open>
  The byte-size estimate as the specification states it, for comparison with
  \<open>size_dt\<close>: a Number is the length of its text; a set is the sum of the sizes of its
  members, each taken as a value of the set's element tag; a List is the sum of the sizes
  of its children; a Map is the sum over its entries of the byte length of the key plus
  the size of the value; a boolean is 1; any other value is the byte length of its text.
\<close>

definition element_tag :: "string \<Rightarrow> string" where
  "element_tag t =
    (if t = STRING_SET then STRING else if t = NUMBER_SET then NUMBER else BINARY)"

lemma weight_mem: "x \<in> set xs \<Longrightarrow> weight x < sum_list (map (\<lambda>x. Suc (weight x)) xs)"
  by (induction xs) auto

lemma weight_mem_snd:
  "(k, x) \<in> set kvs \<Longrightarrow> weight x < sum_list (map (\<lambda>kv. Suc (weight (snd kv))) kvs)"
  by (induction kvs) auto

function spec_size :: "(string \<Rightarrow> nat) \<Rightarrow> dynamo \<Rightarrow> nat" where
  "spec_size byte_len (DynamoType t v) =
    (if t = NUMBER then (case v of PStr text \<Rightarrow> length text | _ \<Rightarrow> 0)
     else if t \<in> set [STRING_SET, NUMBER_SET, BINARY_SET] then
       (case v of
          PList members \<Rightarrow>
            sum_list (map (\<lambda>m. spec_size byte_len (DynamoType (element_tag t) m)) members)
        | _ \<Rightarrow> 0)
     else if t = LIST then
       (case v of
          PList children \<Rightarrow>
            sum_list (map (\<lambda>c. case c of PObj d \<Rightarrow> spec_size byte_len d | _ \<Rightarrow> 0) children)
        | _ \<Rightarrow> 0)
     else if t = MAP then
       (case v of
          PDict entries \<Rightarrow>
            sum_list (map (\<lambda>(k, c). byte_len k +
                             (case c of PObj d \<Rightarrow> spec_size byte_len d | _ \<Rightarrow> 0)) entries)
        | _ \<Rightarrow> 0)
     else
       (case v of PBool b \<Rightarrow> 1 | PStr text \<Rightarrow> byte_len text | _ \<Rightarrow> 0))"
  by pat_completeness auto

termination
  apply (relation "measure (\<lambda>(b, d). weight_obj d)")
     apply simp
    apply (auto dest: weight_mem weight_mem_snd)
  done

section \<open>The projection of the specification\<close>

text \<open>
  The filtered value as the specification states it, for comparison with
  \<open>filter_dt\<close>: of a Map, every top-level key that is neither in the expression list
  nor a nested root is removed, and the child of every key that is a nested root is
  filtered by the tail paths of the expressions that share the prefix; any other value is
  left as it is.  The nested roots and the tail paths are the two lists the code computes
  (\<open>nested_projections\<close>, \<open>relevant_expressions\<close>).
\<close>

fun spec_filter :: "string list \<Rightarrow> dynamo \<Rightarrow> dynamo"
  and spec_filter_entries :: "string list \<Rightarrow> (string \<times> pyval) list \<Rightarrow> (string \<times> pyval) list"
where
  "spec_filter exprs (DynamoType t v) =
    (if t = MAP then
       (case v of
          PDict entries \<Rightarrow> DynamoType t (PDict (spec_filter_entries exprs entries))
        | _ \<Rightarrow> DynamoType t v)
     else DynamoType t v)"
| "spec_filter_entries exprs [] = []"
| "spec_filter_entries exprs ((k, c) # entries) =
    (if k \<notin> set exprs \<and> k \<notin> set (nested_projections exprs) then
       spec_filter_entries exprs entries
     else if k \<in> set (nested_projections exprs) then
       (k, case c of PObj d \<Rightarrow> PObj (spec_filter (relevant_expressions k exprs) d) | _ \<Rightarrow> c)
         # spec_filter_entries exprs entries
     else (k, c) # spec_filter_entries exprs entries)"

text \<open>The keys the first loop of \<open>filter\<close> collects for deletion.\<close>

definition marked :: "string list \<Rightarrow> string \<Rightarrow> bool" where
  "marked exprs k = (k \<notin> set exprs \<and> k \<notin> set (nested_projections exprs))"

section \<open>Properties\<close>

lemmas tag_defs = BINARY_SET_def NUMBER_SET_def STRING_SET_def STRING_def NUMBER_def
  MAP_def LIST_def BOOLEAN_def BINARY_def NULL_def

lemmas is_defs = is_number_def is_set_def is_list_def is_map_def

subsection \<open>Type tag registry\<close>

lemma human_type_mapping_value:
  "human_type_mapping =
    [(''BS'', ''BINARY SET''), (''NS'', ''NUMBER SET''), (''SS'', ''STRING SET''),
     (''S'', ''STRING''), (''N'', ''NUMBER''), (''M'', ''MAP''), (''L'', ''LIST''),
     (''BOOL'', ''BOOLEAN''), (''B'', ''BINARY''), (''NULL'', ''NULL'')]"
  by code_simp

lemma tag_codes_value:
  "tag_codes = [''BS'', ''NS'', ''SS'', ''S'', ''N'', ''M'', ''L'', ''BOOL'', ''B'', ''NULL'']"
  by (simp add: tag_codes_def tag_defs)

text \<open>
  C9, as the code has it: the lookup of a known tag code gives the identifier with every
  underscore replaced by a space, in the identifier's own upper case (there is no
  conversion to lower case), and the lookup of any other code gives the code back.
\<close>

theorem get_human_type_upper_case:
  "get_human_type BINARY_SET = ''BINARY SET''
   \<and> get_human_type NUMBER_SET = ''NUMBER SET''
   \<and> get_human_type STRING_SET = ''STRING SET''
   \<and> get_human_type STRING = ''STRING''
   \<and> get_human_type NUMBER = ''NUMBER''
   \<and> get_human_type MAP = ''MAP''
   \<and> get_human_type LIST = ''LIST''
   \<and> get_human_type BOOLEAN = ''BOOLEAN''
   \<and> get_human_type BINARY = ''BINARY''
   \<and> get_human_type NULL = ''NULL''
   \<and> (code \<notin> set tag_codes \<longrightarrow> get_human_type code = code)"
  by (simp add: get_human_type_def human_type_mapping_value tag_codes_value tag_defs)

theorem get_human_type_upper_case_witness:
  "''X'' \<notin> set tag_codes \<and> get_human_type ''X'' = ''X''
   \<and> get_human_type STRING_SET = ''STRING SET''"
  using get_human_type_upper_case [of "''X''"]
  by (simp add: tag_codes_value)

text \<open>
  C9 as the specification words it fails: the code for \<open>STRING_SET\<close> is not mapped to
  the lower-case text.
\<close>

theorem get_human_type_not_lower_case:
  "get_human_type STRING_SET \<noteq> ''string set''"
  by (simp add: get_human_type_def human_type_mapping_value tag_defs)

subsection \<open>Construction, equality and size\<close>

lemma init_typed:
  "typed_value d \<longrightarrow> init (PObj d) = Inr d"
  "typed_children xs \<longrightarrow> init_list xs = Inr xs"
  "typed_entries kvs \<longrightarrow> init_items kvs = Inr kvs"
proof (induction d and xs and kvs rule: typed_value_typed_children_typed_entries.induct)
  case (1 t v)
  then show ?case
    by (cases v) (auto simp: is_defs tag_defs split: if_splits)
qed (auto split: pyval.splits)

lemma py_eq_list_text:
  "list_all (\<lambda>x. case x of PStr s \<Rightarrow> True | _ \<Rightarrow> False) xs \<Longrightarrow> py_eq_list xs xs = Inr True"
  by (induction xs) (auto split: pyval.splits)

lemma eq_dt_refl:
  "typed_value d \<longrightarrow> eq_dt d d = Inr True"
  "typed_children xs \<longrightarrow> py_eq_list xs xs = Inr True"
  "typed_entries kvs \<longrightarrow>
     (\<forall>b. distinct (map fst b) \<longrightarrow> set kvs \<subseteq> set b \<longrightarrow> py_eq_items kvs b = Inr True)"
proof (induction d and xs and kvs rule: typed_value_typed_children_typed_entries.induct)
  case (1 t v)
  then show ?case
    by (cases v) (auto simp: tag_defs py_eq_list_text split: if_splits)
qed (auto split: pyval.splits)

lemma init_to_json: "init (to_json (DynamoType t v)) = init (PObj (DynamoType t v))"
  by (simp add: to_json_def)

text \<open>
  C2: for every Typed Value \<open>v\<close>, the constructor applied to \<open>to_json v\<close> succeeds,
  and its result is \<open>v\<close> again, which \<open>__eq__\<close> finds equal to \<open>v\<close>.
\<close>

theorem init_to_json_roundtrip:
  assumes "typed_value v"
  shows "init (to_json v) = Inr v \<and> eq_dt v v = Inr True"
proof (cases v)
  case (DynamoType t x)
  then show ?thesis
    using assms init_typed(1) [of v] eq_dt_refl(1) [of v] init_to_json [of t x] by simp
qed

theorem init_to_json_roundtrip_witness:
  "typed_value (DynamoType MAP (PDict
      [(''a'', PObj (DynamoType LIST (PList [PObj (DynamoType NUMBER (PStr ''1'')),
                                            PObj (DynamoType STRING_SET (PList [PStr ''x'']))]))),
       (''b'', PObj (DynamoType BOOLEAN (PBool True)))]))
   \<and> init (to_json (DynamoType MAP (PDict
      [(''a'', PObj (DynamoType LIST (PList [PObj (DynamoType NUMBER (PStr ''1'')),
                                            PObj (DynamoType STRING_SET (PList [PStr ''x'']))]))),
       (''b'', PObj (DynamoType BOOLEAN (PBool True)))]))) =
     Inr (DynamoType MAP (PDict
      [(''a'', PObj (DynamoType LIST (PList [PObj (DynamoType NUMBER (PStr ''1'')),
                                            PObj (DynamoType STRING_SET (PList [PStr ''x'']))]))),
       (''b'', PObj (DynamoType BOOLEAN (PBool True)))]))"
proof -
  have tv: "typed_value (DynamoType MAP (PDict
      [(''a'', PObj (DynamoType LIST (PList [PObj (DynamoType NUMBER (PStr ''1'')),
                                            PObj (DynamoType STRING_SET (PList [PStr ''x'']))]))),
       (''b'', PObj (DynamoType BOOLEAN (PBool True)))]))"
    by (simp add: tag_defs)
  from init_to_json_roundtrip [OF tv] tv show ?thesis by blast
qed

lemma size_members_text:
  assumes "sub \<in> set [STRING, NUMBER, BINARY]"
    and "list_all (\<lambda>x. case x of PStr s \<Rightarrow> True | _ \<Rightarrow> False) xs"
  shows "size_members bs sub xs =
         Inr (sum_list (map (\<lambda>m. spec_size bs (DynamoType sub m)) xs))"
  using assms
  by (induction xs) (auto simp: is_defs tag_defs split: pyval.splits)

lemma typed_value_tag:
  "typed_value (DynamoType t v) \<Longrightarrow>
   t = LIST \<or> t = MAP \<or> t = STRING_SET \<or> t = NUMBER_SET \<or> t = BINARY_SET \<or>
   t = BOOLEAN \<or> t = NULL \<or> t = STRING \<or> t = NUMBER \<or> t = BINARY"
  by (auto split: if_splits)

lemma size_typed:
  "typed_value d \<longrightarrow> size_dt bs d = Inr (spec_size bs d)"
  "typed_children xs \<longrightarrow> size_children bs xs =
     Inr (sum_list (map (\<lambda>c. case c of PObj d \<Rightarrow> spec_size bs d | _ \<Rightarrow> 0) xs))"
  "typed_entries kvs \<longrightarrow> size_entries bs kvs =
     Inr (sum_list (map (\<lambda>(k, c). bs k + (case c of PObj d \<Rightarrow> spec_size bs d | _ \<Rightarrow> 0)) kvs))"
proof (induction d and xs and kvs rule: typed_value_typed_children_typed_entries.induct)
  case (1 t v)
  show ?case
  proof
    assume tv: "typed_value (DynamoType t v)"
    from typed_value_tag[OF tv]
    show "size_dt bs (DynamoType t v) = Inr (spec_size bs (DynamoType t v))"
    proof (elim disjE)
      assume "t = LIST"
      then show ?thesis using tv 1 by (cases v) (auto simp: is_defs tag_defs)
    next
      assume "t = MAP"
      then show ?thesis using tv 1 by (cases v) (auto simp: is_defs tag_defs)
    next
      assume "t = STRING_SET"
      then show ?thesis using tv
        by (cases v) (auto simp: is_defs tag_defs element_tag_def size_members_text)
    next
      assume "t = NUMBER_SET"
      then show ?thesis using tv
        by (cases v) (auto simp: is_defs tag_defs element_tag_def size_members_text)
    next
      assume "t = BINARY_SET"
      then show ?thesis using tv
        by (cases v) (auto simp: is_defs tag_defs element_tag_def size_members_text)
    next
      assume "t = BOOLEAN"
      then show ?thesis using tv by (cases v) (auto simp: is_defs tag_defs)
    next
      assume "t = NULL"
      then show ?thesis using tv by (cases v) (auto simp: is_defs tag_defs)
    next
      assume "t = STRING"
      then show ?thesis using tv by (cases v) (auto simp: is_defs tag_defs)
    next
      assume "t = NUMBER"
      then show ?thesis using tv by (cases v) (auto simp: is_defs tag_defs)
    next
      assume "t = BINARY"
      then show ?thesis using tv by (cases v) (auto simp: is_defs tag_defs)
    qed
  qed
next
  case (5 k x kvs)
  then show ?case using init_typed(1) by (auto split: pyval.splits)
qed (auto split: pyval.splits)

text \<open>
  C1: on every Typed Value \<open>size\<close> returns, and what it returns is the value of the
  specification's equations (\<open>spec_size\<close>), whatever the byte-size estimator is.  The
  three examples: a Number with text \<open>12345\<close> has size 5, a Boolean has size 1, and
  the Map with the one entry \<open>a\<close>, a String \<open>bb\<close>, has the byte length of \<open>a\<close>
  plus that of \<open>bb\<close>, which is 2.
\<close>

theorem size_satisfies_equations:
  "(typed_value v \<longrightarrow> size_dt bytesize v = Inr (spec_size bytesize v))
   \<and> size_dt bytesize (DynamoType NUMBER (PStr ''12345'')) = Inr 5
   \<and> size_dt bytesize (DynamoType BOOLEAN (PBool b)) = Inr 1
   \<and> (bytesize ''bb'' = 2 \<longrightarrow>
        size_dt bytesize (DynamoType MAP (PDict [(''a'', PObj (DynamoType STRING (PStr ''bb'')))]))
          = Inr (bytesize ''a'' + 2))"
  using size_typed(1) [of v bytesize]
  by (simp add: is_defs tag_defs)

theorem size_satisfies_equations_witness:
  "typed_value (DynamoType MAP (PDict [(''a'', PObj (DynamoType STRING (PStr ''bb''))),
                                       (''n'', PObj (DynamoType NUMBER_SET (PList [PStr ''12'', PStr ''345''])))]))
   \<and> length ''bb'' = 2
   \<and> size_dt length (DynamoType MAP (PDict [(''a'', PObj (DynamoType STRING (PStr ''bb''))),
                                       (''n'', PObj (DynamoType NUMBER_SET (PList [PStr ''12'', PStr ''345''])))]))
       = Inr 9
   \<and> size_dt length (DynamoType MAP (PDict [(''a'', PObj (DynamoType STRING (PStr ''bb'')))]))
       = Inr (length ''a'' + 2)"
  using size_satisfies_equations
    [of "DynamoType MAP (PDict [(''a'', PObj (DynamoType STRING (PStr ''bb''))),
                                (''n'', PObj (DynamoType NUMBER_SET (PList [PStr ''12'', PStr ''345''])))])"
        length]
  by (simp add: tag_defs element_tag_def)

subsection \<open>Arithmetic errors\<close>

text \<open>
  C4: \<open>add\<close> of two values with different tags raises TypeError (the specification's
  TypeMismatch), \<open>add\<close> of two values with the same tag other than Number raises
  IncorrectDataType, and \<open>subtract\<close> of two values with the same tag other than Number
  raises TypeError, not IncorrectDataType; so Number plus String is a TypeError and
  String plus String an IncorrectDataType.  No assumption on the values is needed.
\<close>

theorem add_sub_error_paths:
  "(dtype a \<noteq> dtype b \<longrightarrow> add_dt fl a b = Inl TypeError)
   \<and> (dtype a = dtype b \<and> dtype a \<noteq> NUMBER \<longrightarrow> add_dt fl a b = Inl IncorrectDataType)
   \<and> (dtype a = dtype b \<and> dtype a \<noteq> NUMBER \<longrightarrow>
        sub_dt fl a b = Inl TypeError \<and> sub_dt fl a b \<noteq> Inl IncorrectDataType)
   \<and> add_dt fl (DynamoType NUMBER (PStr n)) (DynamoType STRING (PStr s)) = Inl TypeError
   \<and> add_dt fl (DynamoType STRING (PStr s)) (DynamoType STRING (PStr s')) = Inl IncorrectDataType"
  by (simp add: add_dt_def sub_dt_def is_number_def tag_defs)

theorem add_sub_error_paths_witness:
  "dtype (DynamoType NUMBER (PStr ''1'')) \<noteq> dtype (DynamoType BINARY (PStr ''x''))
   \<and> add_dt \<lparr>float_of_str = (\<lambda>s. None :: unit option), float_of_int = (\<lambda>i. None),
              float_add = (\<lambda>f g. f), float_sub = (\<lambda>f g. f), float_str = (\<lambda>f. [])\<rparr>
        (DynamoType NUMBER (PStr ''1'')) (DynamoType BINARY (PStr ''x'')) = Inl TypeError
   \<and> dtype (DynamoType BOOLEAN (PBool True)) = dtype (DynamoType BOOLEAN (PBool False))
   \<and> dtype (DynamoType BOOLEAN (PBool True)) \<noteq> NUMBER
   \<and> add_dt \<lparr>float_of_str = (\<lambda>s. None :: unit option), float_of_int = (\<lambda>i. None),
              float_add = (\<lambda>f g. f), float_sub = (\<lambda>f g. f), float_str = (\<lambda>f. [])\<rparr>
        (DynamoType BOOLEAN (PBool True)) (DynamoType BOOLEAN (PBool False)) = Inl IncorrectDataType
   \<and> sub_dt \<lparr>float_of_str = (\<lambda>s. None :: unit option), float_of_int = (\<lambda>i. None),
              float_add = (\<lambda>f g. f), float_sub = (\<lambda>f g. f), float_str = (\<lambda>f. [])\<rparr>
        (DynamoType BOOLEAN (PBool True)) (DynamoType BOOLEAN (PBool False)) = Inl TypeError"
  using
    add_sub_error_paths [of "DynamoType NUMBER (PStr ''1'')" "DynamoType BINARY (PStr ''x'')"
      "\<lparr>float_of_str = (\<lambda>s. None :: unit option), float_of_int = (\<lambda>i. None),
        float_add = (\<lambda>f g. f), float_sub = (\<lambda>f g. f), float_str = (\<lambda>f. [])\<rparr>"]
    add_sub_error_paths [of "DynamoType BOOLEAN (PBool True)" "DynamoType BOOLEAN (PBool False)"
      "\<lparr>float_of_str = (\<lambda>s. None :: unit option), float_of_int = (\<lambda>i. None),
        float_add = (\<lambda>f g. f), float_sub = (\<lambda>f g. f), float_str = (\<lambda>f. [])\<rparr>"]
  by (simp add: tag_defs)

subsection \<open>Indexed mutation\<close>

text \<open>
  C10: on a Typed Value, \<open>__setitem__\<close> raises NotImplementedError (the
  specification's unsupported-key-type error) exactly when the key is neither an
  integer nor text; an integer key on a value whose tag is not List, and a text key on
  a value whose tag is not Map, raise nothing and leave the value as it was.
\<close>

theorem setitem_key_types:
  "(typed_value self \<longrightarrow>
      (setitem self key val = Inl NotImplementedError)
        = (\<not> isinstance_int key \<and> \<not> isinstance_str key))
   \<and> (isinstance_int key \<and> \<not> is_list self \<longrightarrow> setitem self key val = Inr self)
   \<and> (isinstance_str key \<and> \<not> is_map self \<longrightarrow> setitem self key val = Inr self)"
  by (cases key)
     (auto simp: setitem_def list_assign_def split: pyval.splits sum.splits if_splits)

theorem setitem_key_types_witness:
  "typed_value (DynamoType STRING (PStr ''s''))
   \<and> setitem (DynamoType STRING (PStr ''s'')) KOther (PStr ''v'') = Inl NotImplementedError
   \<and> isinstance_int (KInt 0) \<and> \<not> is_list (DynamoType STRING (PStr ''s''))
   \<and> setitem (DynamoType STRING (PStr ''s'')) (KInt 0) (PStr ''v'') = Inr (DynamoType STRING (PStr ''s''))
   \<and> isinstance_str (KStr ''k'') \<and> \<not> is_map (DynamoType STRING (PStr ''s''))
   \<and> setitem (DynamoType STRING (PStr ''s'')) (KStr ''k'') (PStr ''v'') = Inr (DynamoType STRING (PStr ''s''))"
  using
    setitem_key_types [of "DynamoType STRING (PStr ''s'')" KOther "PStr ''v''"]
    setitem_key_types [of "DynamoType STRING (PStr ''s'')" "KInt 0" "PStr ''v''"]
    setitem_key_types [of "DynamoType STRING (PStr ''s'')" "KStr ''k''" "PStr ''v''"]
  by (simp add: tag_defs is_defs)

text \<open>
  C7, as the code has it.  On a List of length \<open>n\<close>: an index from 0 up to \<open>n - 1\<close>
  overwrites that position; an index \<open>i\<close> from \<open>-n\<close> up to \<open>-1\<close> overwrites
  position \<open>n + i\<close>, Python's reading of a negative index; an index below \<open>-n\<close>
  raises IndexError; an index of \<open>n\<close> or more appends the new element at the end and
  raises nothing.
\<close>

theorem setitem_list_index:
  "(0 \<le> i \<and> i < int (length xs) \<longrightarrow>
      setitem (DynamoType LIST (PList xs)) (KInt i) val
        = Inr (DynamoType LIST (PList (xs[nat i := val]))))
   \<and> (- int (length xs) \<le> i \<and> i < 0 \<longrightarrow>
      setitem (DynamoType LIST (PList xs)) (KInt i) val
        = Inr (DynamoType LIST (PList (xs[nat (int (length xs) + i) := val]))))
   \<and> (i < - int (length xs) \<longrightarrow>
      setitem (DynamoType LIST (PList xs)) (KInt i) val = Inl IndexError)
   \<and> (int (length xs) \<le> i \<longrightarrow>
      setitem (DynamoType LIST (PList xs)) (KInt i) val
        = Inr (DynamoType LIST (PList (xs @ [val]))))"
  by (simp add: setitem_def list_assign_def is_list_def)

theorem setitem_list_index_witness:
  "setitem (DynamoType LIST (PList [PObj (DynamoType STRING (PStr ''a'')), PObj (DynamoType STRING (PStr ''b''))]))
     (KInt 1) (PObj (DynamoType STRING (PStr ''z'')))
     = Inr (DynamoType LIST (PList [PObj (DynamoType STRING (PStr ''a'')), PObj (DynamoType STRING (PStr ''z''))]))
   \<and> setitem (DynamoType LIST (PList [PObj (DynamoType STRING (PStr ''a'')), PObj (DynamoType STRING (PStr ''b''))]))
     (KInt (- 2)) (PObj (DynamoType STRING (PStr ''z'')))
     = Inr (DynamoType LIST (PList [PObj (DynamoType STRING (PStr ''z'')), PObj (DynamoType STRING (PStr ''b''))]))
   \<and> setitem (DynamoType LIST (PList [PObj (DynamoType STRING (PStr ''a'')), PObj (DynamoType STRING (PStr ''b''))]))
     (KInt 2) (PObj (DynamoType STRING (PStr ''z'')))
     = Inr (DynamoType LIST (PList [PObj (DynamoType STRING (PStr ''a'')), PObj (DynamoType STRING (PStr ''b'')),
                                   PObj (DynamoType STRING (PStr ''z''))]))
   \<and> setitem (DynamoType LIST (PList [PObj (DynamoType STRING (PStr ''a'')), PObj (DynamoType STRING (PStr ''b''))]))
     (KInt (- 5)) (PObj (DynamoType STRING (PStr ''z''))) = Inl IndexError"
  using
    setitem_list_index [of "- 5" "[PObj (DynamoType STRING (PStr ''a'')), PObj (DynamoType STRING (PStr ''b''))]"
      "PObj (DynamoType STRING (PStr ''z''))"]
    setitem_list_index [of 1 "[PObj (DynamoType STRING (PStr ''a'')), PObj (DynamoType STRING (PStr ''b''))]"
      "PObj (DynamoType STRING (PStr ''z''))"]
    setitem_list_index [of "- 2" "[PObj (DynamoType STRING (PStr ''a'')), PObj (DynamoType STRING (PStr ''b''))]"
      "PObj (DynamoType STRING (PStr ''z''))"]
    setitem_list_index [of 2 "[PObj (DynamoType STRING (PStr ''a'')), PObj (DynamoType STRING (PStr ''b''))]"
      "PObj (DynamoType STRING (PStr ''z''))"]
  by simp

text \<open>
  C7 as the specification words it fails for an index below \<open>-n\<close>: on a List of two
  elements the index \<open>-3\<close> is less than the length, and the mutation raises IndexError
  instead of overwriting an element.
\<close>

theorem setitem_negative_index_raises:
  "setitem (DynamoType LIST (PList [PObj (DynamoType STRING (PStr ''a'')), PObj (DynamoType STRING (PStr ''b''))]))
     (KInt (- 3)) (PObj (DynamoType STRING (PStr ''z''))) = Inl IndexError"
  by (simp add: setitem_def list_assign_def is_list_def)

subsection \<open>Number arithmetic\<close>

lemma digit_char_is_digit: "d < 10 \<Longrightarrow> is_digit (digit_char d)"
  by (simp add: is_digit_def digit_char_def)

lemma digit_value_digit_char: "d < 10 \<Longrightarrow> digit_value (digit_char d) = d"
  by (simp add: digit_value_def digit_char_def)

lemma str_nat_digits: "list_all is_digit (str_nat n)"
proof (induction n rule: str_nat.induct)
  case (1 n)
  then show ?case
    by (subst str_nat.simps) (auto simp: digit_char_is_digit)
qed

lemma str_nat_nonempty: "str_nat n \<noteq> []"
  by (subst str_nat.simps) simp

lemma decimal_value_snoc: "decimal_value (ds @ [c]) = 10 * decimal_value ds + digit_value c"
  by (simp add: decimal_value_def)

lemma decimal_value_str_nat: "decimal_value (str_nat n) = n"
proof (induction n rule: str_nat.induct)
  case (1 n)
  show ?case
  proof (cases "n < 10")
    case True
    then show ?thesis
      by (subst str_nat.simps) (simp add: decimal_value_def digit_value_digit_char)
  next
    case False
    then have "decimal_value (str_nat n) = 10 * decimal_value (str_nat (n div 10)) + n mod 10"
      by (subst str_nat.simps) (simp add: decimal_value_snoc digit_value_digit_char)
    with False 1 show ?thesis by simp
  qed
qed

lemma digits_no_doubled_underscore: "list_all is_digit ds \<Longrightarrow> \<not> doubled_underscore ds"
  by (induction ds rule: doubled_underscore.induct) (auto simp: is_digit_def)

lemma digits_ok_digits:
  assumes "list_all is_digit ds" "ds \<noteq> []"
  shows "digits_ok ds"
proof -
  have "is_digit (hd ds)" "is_digit (last ds)"
    using assms by (auto simp: list_all_iff)
  then have "hd ds \<noteq> CHR ''_''" "last ds \<noteq> CHR ''_''"
    by (auto simp: is_digit_def)
  then show ?thesis
    using assms digits_no_doubled_underscore [of ds] by (simp add: digits_ok_def)
qed

lemma digits_first:
  assumes "list_all is_digit ds" "ds \<noteq> []"
  shows "\<not> int_space (hd ds)" "hd ds \<noteq> CHR ''+''" "hd ds \<noteq> CHR ''-''"
proof -
  have "is_digit (hd ds)" using assms by (auto simp: list_all_iff)
  then show "\<not> int_space (hd ds)" "hd ds \<noteq> CHR ''+''" "hd ds \<noteq> CHR ''-''"
    by (auto simp: is_digit_def int_space_def)
qed

lemma py_int_digits:
  assumes "list_all is_digit ds" "ds \<noteq> []"
  shows "py_int ds = Some (int (decimal_value ds))"
proof -
  obtain c r where ds: "ds = c # r" using assms(2) by (cases ds) auto
  have c: "\<not> int_space c" "c \<noteq> CHR ''+''" "c \<noteq> CHR ''-''"
    using digits_first [OF assms] ds by auto
  have tw: "takeWhile (\<lambda>c. is_digit c \<or> c = CHR ''_'') ds = ds"
    using assms(1) by (auto simp: list_all_iff intro: takeWhile_eq_all_conv[THEN iffD2])
  have dw: "dropWhile (\<lambda>c. is_digit c \<or> c = CHR ''_'') ds = []"
    using assms(1) by (auto simp: list_all_iff)
  have fl: "filter is_digit ds = ds"
    using assms(1) by (auto simp: list_all_iff)
  have dropw: "dropWhile int_space ds = ds"
    using c ds by simp
  have r: "(case ds of [] \<Rightarrow> [] | c # r \<Rightarrow> if c = CHR ''+'' \<or> c = CHR ''-'' then r else ds) = ds"
    using c by (simp add: ds)
  have neg: "(case ds of [] \<Rightarrow> False | c # r \<Rightarrow> c = CHR ''-'') = False"
    using c by (simp add: ds)
  show ?thesis
    by (simp add: py_int_def dropw r neg tw dw fl digits_ok_digits [OF assms])
qed

lemma py_int_minus_digits:
  assumes "list_all is_digit ds" "ds \<noteq> []"
  shows "py_int (CHR ''-'' # ds) = Some (- int (decimal_value ds))"
proof -
  have tw: "takeWhile (\<lambda>c. is_digit c \<or> c = CHR ''_'') ds = ds"
    using assms(1) by (auto simp: list_all_iff intro: takeWhile_eq_all_conv[THEN iffD2])
  have dw: "dropWhile (\<lambda>c. is_digit c \<or> c = CHR ''_'') ds = []"
    using assms(1) by (auto simp: list_all_iff)
  have fl: "filter is_digit ds = ds"
    using assms(1) by (auto simp: list_all_iff)
  have sp: "\<not> int_space CHR ''-''"
    by (simp add: int_space_def)
  show ?thesis
    by (simp add: py_int_def sp tw dw fl digits_ok_digits [OF assms])
qed

lemma py_int_py_str_int: "py_int (py_str_int k) = Some k"
proof (cases "k < 0")
  case True
  then show ?thesis
    using py_int_minus_digits [OF str_nat_digits str_nat_nonempty, of "nat (- k)"]
    by (simp add: py_str_int_def decimal_value_str_nat)
next
  case False
  then show ?thesis
    using py_int_digits [OF str_nat_digits str_nat_nonempty, of "nat k"]
    by (simp add: py_str_int_def decimal_value_str_nat)
qed

lemma py_int_3: "py_int ''3'' = Some 3" "py_int ''4'' = Some 4" "py_int ''1'' = Some 1"
  by code_simp+

lemma py_str_int_7: "py_str_int 7 = ''7''" "py_str_int 2 = ''2''"
  by code_simp+


text \<open>
  C8, as the code has it.  For two Number values, each text is read by \<open>int\<close> when it
  has no decimal point and by \<open>float\<close> when it has one.  When both texts are
  accepted, \<open>add\<close> and \<open>subtract\<close> return the Number whose text is the formatted sum
  or difference: of two integers their exact sum or difference in decimal (a text that
  \<open>int\<close> reads back as the same number), otherwise the float operation on the two
  operands, an integer operand being converted first.  When the receiver's text is
  rejected, or the receiver's is accepted and the other's rejected, both operations raise
  ValueError.  \<open>3 + 4\<close> gives \<open>7\<close> and \<open>3 - 1\<close> gives \<open>2\<close>.
\<close>

theorem number_arithmetic:
  "(CHR ''.'' \<notin> set sa \<and> CHR ''.'' \<notin> set sb \<and> py_int sa = Some i \<and> py_int sb = Some j \<longrightarrow>
      add_dt fl (DynamoType NUMBER (PStr sa)) (DynamoType NUMBER (PStr sb))
        = Inr (DynamoType NUMBER (PStr (py_str_int (i + j))))
      \<and> sub_dt fl (DynamoType NUMBER (PStr sa)) (DynamoType NUMBER (PStr sb))
        = Inr (DynamoType NUMBER (PStr (py_str_int (i - j)))))
   \<and> (CHR ''.'' \<in> set sa \<and> CHR ''.'' \<in> set sb
        \<and> float_of_str fl sa = Some f \<and> float_of_str fl sb = Some g \<longrightarrow>
      add_dt fl (DynamoType NUMBER (PStr sa)) (DynamoType NUMBER (PStr sb))
        = Inr (DynamoType NUMBER (PStr (float_str fl (float_add fl f g))))
      \<and> sub_dt fl (DynamoType NUMBER (PStr sa)) (DynamoType NUMBER (PStr sb))
        = Inr (DynamoType NUMBER (PStr (float_str fl (float_sub fl f g)))))
   \<and> (CHR ''.'' \<notin> set sa \<and> CHR ''.'' \<in> set sb
        \<and> py_int sa = Some i \<and> float_of_int fl i = Some f \<and> float_of_str fl sb = Some g \<longrightarrow>
      add_dt fl (DynamoType NUMBER (PStr sa)) (DynamoType NUMBER (PStr sb))
        = Inr (DynamoType NUMBER (PStr (float_str fl (float_add fl f g))))
      \<and> sub_dt fl (DynamoType NUMBER (PStr sa)) (DynamoType NUMBER (PStr sb))
        = Inr (DynamoType NUMBER (PStr (float_str fl (float_sub fl f g)))))
   \<and> (CHR ''.'' \<in> set sa \<and> CHR ''.'' \<notin> set sb
        \<and> float_of_str fl sa = Some f \<and> py_int sb = Some j \<and> float_of_int fl j = Some g \<longrightarrow>
      add_dt fl (DynamoType NUMBER (PStr sa)) (DynamoType NUMBER (PStr sb))
        = Inr (DynamoType NUMBER (PStr (float_str fl (float_add fl f g))))
      \<and> sub_dt fl (DynamoType NUMBER (PStr sa)) (DynamoType NUMBER (PStr sb))
        = Inr (DynamoType NUMBER (PStr (float_str fl (float_sub fl f g)))))
   \<and> (parse_operand fl sa = Inl ValueError \<longrightarrow>
      add_dt fl (DynamoType NUMBER (PStr sa)) (DynamoType NUMBER (PStr sb)) = Inl ValueError
      \<and> sub_dt fl (DynamoType NUMBER (PStr sa)) (DynamoType NUMBER (PStr sb)) = Inl ValueError)
   \<and> (parse_operand fl sa = Inr x \<and> parse_operand fl sb = Inl ValueError \<longrightarrow>
      add_dt fl (DynamoType NUMBER (PStr sa)) (DynamoType NUMBER (PStr sb)) = Inl ValueError
      \<and> sub_dt fl (DynamoType NUMBER (PStr sa)) (DynamoType NUMBER (PStr sb)) = Inl ValueError)
   \<and> py_int (py_str_int k) = Some k
   \<and> add_dt fl (DynamoType NUMBER (PStr ''3'')) (DynamoType NUMBER (PStr ''4''))
        = Inr (DynamoType NUMBER (PStr ''7''))
   \<and> sub_dt fl (DynamoType NUMBER (PStr ''3'')) (DynamoType NUMBER (PStr ''1''))
        = Inr (DynamoType NUMBER (PStr ''2''))"
proof -
  have ex: "add_dt fl (DynamoType NUMBER (PStr ''3'')) (DynamoType NUMBER (PStr ''4''))
              = Inr (DynamoType NUMBER (PStr ''7''))"
    "sub_dt fl (DynamoType NUMBER (PStr ''3'')) (DynamoType NUMBER (PStr ''1''))
              = Inr (DynamoType NUMBER (PStr ''2''))"
    using py_int_3 py_str_int_7
    by (simp_all add: add_dt_def sub_dt_def is_defs tag_defs parse_operand_def)
  show ?thesis
    using ex py_int_py_str_int [of k]
    by (simp add: add_dt_def sub_dt_def is_defs tag_defs parse_operand_def)
qed

lemma tenths_values:
  "py_int ''12'' = Some 12" "py_int ''30'' = Some 30"
  "py_str_int (12 + 30) = ''42''" "py_str_int (12 - 30) = ''-18''"
  "float_of_str tenths ''1.5'' = Some 15" "float_of_str tenths ''2.5'' = Some 25"
  "float_of_int tenths 12 = Some 120"
  "float_str tenths (float_add tenths 15 25) = ''4.0''"
  "float_str tenths (float_sub tenths 15 25) = ''-1.0''"
  "float_str tenths (float_add tenths 120 25) = ''14.5''"
  "float_str tenths (float_sub tenths 120 25) = ''9.5''"
  "float_str tenths (float_add tenths 15 120) = ''13.5''"
  "float_str tenths (float_sub tenths 15 120) = ''-11.5''"
  "py_int ''1e5'' = None"
  by code_simp+

theorem number_arithmetic_witness:
  "add_dt tenths (DynamoType NUMBER (PStr ''12'')) (DynamoType NUMBER (PStr ''30''))
     = Inr (DynamoType NUMBER (PStr ''42''))
   \<and> sub_dt tenths (DynamoType NUMBER (PStr ''12'')) (DynamoType NUMBER (PStr ''30''))
     = Inr (DynamoType NUMBER (PStr ''-18''))
   \<and> add_dt tenths (DynamoType NUMBER (PStr ''1.5'')) (DynamoType NUMBER (PStr ''2.5''))
     = Inr (DynamoType NUMBER (PStr ''4.0''))
   \<and> sub_dt tenths (DynamoType NUMBER (PStr ''1.5'')) (DynamoType NUMBER (PStr ''2.5''))
     = Inr (DynamoType NUMBER (PStr ''-1.0''))
   \<and> add_dt tenths (DynamoType NUMBER (PStr ''12'')) (DynamoType NUMBER (PStr ''2.5''))
     = Inr (DynamoType NUMBER (PStr ''14.5''))
   \<and> sub_dt tenths (DynamoType NUMBER (PStr ''1.5'')) (DynamoType NUMBER (PStr ''12''))
     = Inr (DynamoType NUMBER (PStr ''-11.5''))
   \<and> add_dt tenths (DynamoType NUMBER (PStr ''1e5'')) (DynamoType NUMBER (PStr ''12'')) = Inl ValueError
   \<and> sub_dt tenths (DynamoType NUMBER (PStr ''12'')) (DynamoType NUMBER (PStr ''1e5'')) = Inl ValueError"
  using
    number_arithmetic [of "''12''" "''30''" 12 30 tenths]
    number_arithmetic [of "''1.5''" "''2.5''" _ _ tenths 15 25]
    number_arithmetic [of "''12''" "''2.5''" 12 _ tenths 120 25]
    number_arithmetic [of "''1.5''" "''12''" _ 12 tenths 15 120]
    number_arithmetic [of "''1e5''" "''12''" _ _ tenths]
    number_arithmetic [of "''12''" "''1e5''" _ _ tenths _ _ "PyInt 12"]
    tenths_values
  by (simp add: parse_operand_def)

text \<open>
  C8 as the specification words it fails on a Number whose text has no decimal point and
  is not an integer literal: with the text \<open>1e5\<close> \<open>add\<close> raises ValueError and
  returns no value.
\<close>

theorem add_rejects_exponent_text:
  "add_dt tenths (DynamoType NUMBER (PStr ''1e5'')) (DynamoType NUMBER (PStr ''1'')) = Inl ValueError"
  using tenths_values
  by (simp add: add_dt_def is_defs tag_defs parse_operand_def)

subsection \<open>Tokenizer\<close>

lemma startswith_hash: "startswith (CHR ''#'' # r) ''#''"
  by (simp add: startswith_def)

lemma staged_hash:
  "process_staged_characters (self\<lparr>staged_characters := CHR ''#'' # r\<rparr>) =
    (if is_expression_attribute r
     then Inr (self\<lparr>token_list := token_list self @ [Token ATTRIBUTE_NAME (CHR ''#'' # r)],
                    staged_characters := []\<rparr>)
     else Inl (InvalidExpressionAttributeNameKey (CHR ''#'' # r)))"
  by (simp add: process_staged_characters_def startswith_hash is_expression_attribute_name_def
      add_token_from_stage_def add_token_def)

lemma is_expression_attribute_digit_first:
  assumes "is_digit c" "list_all word_char r"
  shows "is_expression_attribute (c # r)"
proof -
  have "ascii_alnum c"
    using assms(1) by (simp add: is_digit_def ascii_alnum_def)
  moreover have "dropWhile word_char r = []"
    using assms(2) by (simp add: list_all_iff)
  ultimately show ?thesis
    by (simp add: is_expression_attribute_def at_end_def)
qed

text \<open>
  C5, as the code has it.  A staged buffer that starts with \<open>#\<close> is finalized as one
  AttributeName placeholder token exactly when the rest of the buffer matches
  \<open>^[a-zA-Z0-9][a-zA-Z0-9_]*$\<close>, and fails with InvalidExpressionAttributeNameKey
  otherwise.  A rest that begins with a digit and goes on with letters, digits and
  underscores matches, so it is accepted; the empty rest and a rest that begins with an
  underscore are rejected.  Tokenizing \<open>#1abc\<close> gives one placeholder token.
\<close>

theorem hash_buffer_acceptance:
  "process_staged_characters (self\<lparr>staged_characters := CHR ''#'' # r\<rparr>) =
     (if is_expression_attribute r
      then Inr (self\<lparr>token_list := token_list self @ [Token ATTRIBUTE_NAME (CHR ''#'' # r)],
                     staged_characters := []\<rparr>)
      else Inl (InvalidExpressionAttributeNameKey (CHR ''#'' # r)))
   \<and> (is_digit c \<and> list_all word_char r' \<longrightarrow> is_expression_attribute (c # r'))
   \<and> \<not> is_expression_attribute []
   \<and> \<not> is_expression_attribute (CHR ''_'' # r')
   \<and> make_list ''#1abc'' = Inr [Token ATTRIBUTE_NAME ''#1abc'']
   \<and> make_list ''#'' = Inl (InvalidExpressionAttributeNameKey ''#'')
   \<and> make_list ''#_a'' = Inl (InvalidExpressionAttributeNameKey ''#_a'')"
proof -
  have ml: "make_list ''#1abc'' = Inr [Token ATTRIBUTE_NAME ''#1abc'']"
    "make_list ''#'' = Inl (InvalidExpressionAttributeNameKey ''#'')"
    "make_list ''#_a'' = Inl (InvalidExpressionAttributeNameKey ''#_a'')"
    by code_simp+
  have neg: "\<not> is_expression_attribute []" "\<not> is_expression_attribute (CHR ''_'' # r')"
    by (simp_all add: is_expression_attribute_def ascii_alnum_def)
  show ?thesis
    using ml neg staged_hash [where self = self and r = r] is_expression_attribute_digit_first [of c r']
    by simp
qed

theorem hash_buffer_acceptance_witness:
  "is_digit CHR ''1'' \<and> list_all word_char ''abc''
   \<and> is_expression_attribute ''1abc''
   \<and> process_staged_characters ((tokenizer_init ''#1abc'')\<lparr>staged_characters := ''#1abc''\<rparr>)
       = Inr \<lparr>input_expression_str = ''#1abc'', token_list = [Token ATTRIBUTE_NAME ''#1abc''],
              staged_characters = []\<rparr>"
proof -
  have a: "is_digit CHR ''1''" "list_all word_char ''abc''"
    by code_simp+
  from hash_buffer_acceptance [where self = "tokenizer_init ''#1abc''" and r = "''1abc''"
      and c = "CHR ''1''" and r' = "''abc''"] a
  show ?thesis
    by (simp add: tokenizer_init_def)
qed

text \<open>
  C5 as the specification words it fails: tokenizing \<open>#1abc\<close> raises nothing, it
  returns the one AttributeName placeholder token.
\<close>

theorem hash_digit_name_accepted:
  "make_list ''#1abc'' \<noteq> Inl (InvalidExpressionAttributeNameKey ''#1abc'')
   \<and> make_list ''#1abc'' = Inr [Token ATTRIBUTE_NAME ''#1abc'']"
proof -
  have "make_list ''#1abc'' = Inr [Token ATTRIBUTE_NAME ''#1abc'']"
    by code_simp
  then show ?thesis by simp
qed

text \<open>
  C3, on the code: \<open>is_numeric\<close> matches \<open>[0-9]+\<close> at the start of the buffer only,
  so a buffer that does not start with \<open>#\<close> is finalized as a Number token as soon as
  its first character is a decimal digit.  The buffer \<open>1abc\<close> is not made of digits
  alone and matches the bare-identifier grammar, yet the token emitted for it is a
  Number token, not an Attribute token.
\<close>

theorem numeric_prefix_is_number_token:
  "is_numeric ''1abc''
   \<and> \<not> list_all is_digit ''1abc''
   \<and> is_expression_attribute ''1abc''
   \<and> make_list ''1abc'' = Inr [Token NUMBER_TOKEN ''1abc'']
   \<and> make_list ''1abc'' \<noteq> Inr [Token ATTRIBUTE ''1abc'']"
proof -
  have "is_numeric ''1abc''" "\<not> list_all is_digit ''1abc''" "is_expression_attribute ''1abc''"
    "make_list ''1abc'' = Inr [Token NUMBER_TOKEN ''1abc'']"
    by code_simp+
  then show ?thesis by simp
qed

subsection \<open>Projection\<close>

lemma foldl_delete: "foldl (\<lambda>d k. AList.delete k d) xs ks = filter (\<lambda>p. fst p \<notin> set ks) xs"
proof (induction ks arbitrary: xs)
  case Nil
  then show ?case by simp
next
  case (Cons k ks)
  have "AList.delete k xs = filter (\<lambda>p. fst p \<noteq> k) xs"
    by (induction xs) auto
  then show ?case
    using Cons by (auto intro: filter_cong)
qed

lemma delete_marked:
  assumes "map fst kvs1 = map fst kvs"
  shows "foldl (\<lambda>d k. AList.delete k d) kvs1 (filter (marked e) (map fst kvs))
         = filter (\<lambda>p. \<not> marked e (fst p)) kvs1"
proof -
  have "\<And>p. p \<in> set kvs1 \<Longrightarrow> fst p \<in> set (map fst kvs)"
    using assms by (metis image_eqI set_map)
  then show ?thesis
    unfolding foldl_delete by (intro filter_cong) auto
qed

lemma filter_attrs_typed:
  "typed_value d \<longrightarrow> (\<forall>e. filter_dt e d = Inr (spec_filter e d))"
  "typed_children xs \<longrightarrow> True"
  "typed_entries kvs \<longrightarrow>
     (\<forall>e. \<exists>kvs1. filter_attrs e kvs = Inr (kvs1, filter (marked e) (map fst kvs))
        \<and> map fst kvs1 = map fst kvs
        \<and> filter (\<lambda>p. \<not> marked e (fst p)) kvs1 = spec_filter_entries e kvs)"
proof (induction d and xs and kvs rule: typed_value_typed_children_typed_entries.induct)
  case (1 t v)
  show ?case
  proof (intro impI allI)
    fix e
    assume tv: "typed_value (DynamoType t v)"
    show "filter_dt e (DynamoType t v) = Inr (spec_filter e (DynamoType t v))"
    proof (cases "t = MAP")
      case True
      with tv obtain kvs where v: "v = PDict kvs" and te: "typed_entries kvs"
        by (cases v) (auto simp: tag_defs)
      from 1(2) True v te obtain kvs1
        where k1: "filter_attrs e kvs = Inr (kvs1, filter (marked e) (map fst kvs))"
          and k2: "map fst kvs1 = map fst kvs"
          and k3: "filter (\<lambda>p. \<not> marked e (fst p)) kvs1 = spec_filter_entries e kvs"
        by (auto simp: tag_defs)
      show ?thesis
        using True v k1 k3 delete_marked [OF k2, of e]
        by (simp add: is_defs)
    next
      case False
      then show ?thesis by (simp add: is_defs)
    qed
  qed
next
  case (5 k x kvs)
  show ?case
  proof (intro impI allI)
    fix e
    assume te: "typed_entries ((k, x) # kvs)"
    then obtain d where x: "x = PObj d" and td: "typed_value d" and tk: "typed_entries kvs"
      by (cases x) auto
    from 5(1) x td have fd: "filter_dt (relevant_expressions k e) d
        = Inr (spec_filter (relevant_expressions k e) d)"
      by simp
    from 5(2) x td tk obtain kvs1
      where k1: "filter_attrs e kvs = Inr (kvs1, filter (marked e) (map fst kvs))"
        and k2: "map fst kvs1 = map fst kvs"
        and k3: "filter (\<lambda>p. \<not> marked e (fst p)) kvs1 = spec_filter_entries e kvs"
      by auto
    show "\<exists>kvs1. filter_attrs e ((k, x) # kvs) = Inr (kvs1, filter (marked e) (map fst ((k, x) # kvs)))
        \<and> map fst kvs1 = map fst ((k, x) # kvs)
        \<and> filter (\<lambda>p. \<not> marked e (fst p)) kvs1 = spec_filter_entries e ((k, x) # kvs)"
      using x fd k1 k2 k3 by (auto simp: marked_def)
  qed
qed simp_all


lemma spec_filter_entries_keys:
  "map fst (spec_filter_entries exprs entries)
   = filter (\<lambda>k. k \<in> set exprs \<or> k \<in> set (nested_projections exprs)) (map fst entries)"
  by (induction entries) auto

text \<open>
  C6: on every Map-tagged Typed Value, for every list of projection expressions,
  \<open>filter\<close> returns, and leaves the value the specification describes
  (\<open>spec_filter\<close>): the keys that remain, in their order, are exactly the top-level
  keys that are in the expression list or are the part before the first dot of a dotted
  expression, and the child of every key of the second kind is filtered in turn by the
  expressions that start with that key and a dot, with this prefix removed.  The map with
  the keys \<open>a\<close> and \<open>b\<close>, where \<open>b\<close> holds a map with the keys \<open>c\<close> and
  \<open>d\<close>, filtered by \<open>a\<close> and \<open>b.c\<close>, keeps \<open>a\<close> and \<open>b.c\<close> and loses
  \<open>b.d\<close>.
\<close>

theorem filter_matches_projection:
  "(typed_value (DynamoType MAP (PDict entries)) \<longrightarrow>
      filter_dt exprs (DynamoType MAP (PDict entries))
        = Inr (DynamoType MAP (PDict (spec_filter_entries exprs entries))))
   \<and> map fst (spec_filter_entries exprs entries)
        = filter (\<lambda>k. k \<in> set exprs \<or> k \<in> set (nested_projections exprs)) (map fst entries)
   \<and> (k \<in> set (nested_projections exprs))
        = (\<exists>expr. expr \<in> set exprs \<and> CHR ''.'' \<in> set expr
             \<and> k = takeWhile (\<lambda>c. c \<noteq> CHR ''.'') expr)
   \<and> relevant_expressions k exprs
        = map (drop (length k + 1)) (filter (\<lambda>expr. take (length k + 1) expr = k @ ''.'') exprs)
   \<and> filter_dt [''a'', ''b.c'']
        (DynamoType MAP (PDict [(''a'', va),
           (''b'', PObj (DynamoType MAP (PDict [(''c'', vc), (''d'', vd)])))]))
      = Inr (DynamoType MAP (PDict [(''a'', va),
           (''b'', PObj (DynamoType MAP (PDict [(''c'', vc)])))]))"
proof -
  have ex: "filter_dt [''a'', ''b.c'']
        (DynamoType MAP (PDict [(''a'', va),
           (''b'', PObj (DynamoType MAP (PDict [(''c'', vc), (''d'', vd)])))]))
      = Inr (DynamoType MAP (PDict [(''a'', va),
           (''b'', PObj (DynamoType MAP (PDict [(''c'', vc)])))]))"
    by (simp add: is_defs tag_defs nested_projections_def relevant_expressions_def startswith_def)
  have roots: "(k \<in> set (nested_projections exprs))
        = (\<exists>expr. expr \<in> set exprs \<and> CHR ''.'' \<in> set expr
             \<and> k = takeWhile (\<lambda>c. c \<noteq> CHR ''.'') expr)"
    by (auto simp: nested_projections_def)
  have tails: "relevant_expressions k exprs
        = map (drop (length k + 1)) (filter (\<lambda>expr. take (length k + 1) expr = k @ ''.'') exprs)"
    by (simp add: relevant_expressions_def startswith_def)
  show ?thesis
    using ex roots tails filter_attrs_typed(1) [of "DynamoType MAP (PDict entries)"]
      spec_filter_entries_keys [of exprs entries]
    by simp
qed

theorem filter_matches_projection_witness:
  "typed_value (DynamoType MAP (PDict
      [(''a'', PObj (DynamoType STRING (PStr ''x''))),
       (''b'', PObj (DynamoType MAP (PDict [(''c'', PObj (DynamoType NUMBER (PStr ''1''))),
                                            (''d'', PObj (DynamoType NUMBER (PStr ''2'')))]))),
       (''e'', PObj (DynamoType BOOLEAN (PBool True)))]))
   \<and> filter_dt [''a'', ''b.c''] (DynamoType MAP (PDict
      [(''a'', PObj (DynamoType STRING (PStr ''x''))),
       (''b'', PObj (DynamoType MAP (PDict [(''c'', PObj (DynamoType NUMBER (PStr ''1''))),
                                            (''d'', PObj (DynamoType NUMBER (PStr ''2'')))]))),
       (''e'', PObj (DynamoType BOOLEAN (PBool True)))]))
     = Inr (DynamoType MAP (PDict
      [(''a'', PObj (DynamoType STRING (PStr ''x''))),
       (''b'', PObj (DynamoType MAP (PDict [(''c'', PObj (DynamoType NUMBER (PStr ''1'')))])))]))"
  using filter_matches_projection [of
      "[(''a'', PObj (DynamoType STRING (PStr ''x''))),
        (''b'', PObj (DynamoType MAP (PDict [(''c'', PObj (DynamoType NUMBER (PStr ''1''))),
                                             (''d'', PObj (DynamoType NUMBER (PStr ''2'')))]))),
        (''e'', PObj (DynamoType BOOLEAN (PBool True)))]"
      "[''a'', ''b.c'']" "''b''"]
  by (simp add: tag_defs nested_projections_def relevant_expressions_def startswith_def)

end
